theory Spec2Isabelle
  imports Complex_Main
begin

section \<open>JavaScript values\<close>

text \<open>
  The route handlers read untyped request data. A number is an IEEE double: every finite
  double is a rational, and the handlers only compare numbers and test them for being
  integers, which is exact on rationals, so a finite number is modelled by its rational
  value (both zeros are \<open>Finite 0\<close>). An object holds its own enumerable properties in
  the order the engine enumerates them (the order of \<open>Object.keys\<close> and of
  \<open>for ... in\<close>), with distinct keys. A string is a list of code units below 256.
\<close>

datatype jsnum = NaN | NegInfinity | Finite rat | PosInfinity

datatype jsval =
    JUndefined
  | JNull
  | JBool bool
  | JNum jsnum
  | JStr string
  | JArr "jsval list"
  | JObj "(string \<times> jsval) list"

text \<open>\<open>!v\<close> is \<open>\<not> truthy v\<close>.\<close>

fun truthy :: "jsval \<Rightarrow> bool" where
  "truthy JUndefined = False"
| "truthy JNull = False"
| "truthy (JBool b) = b"
| "truthy (JNum NaN) = False"
| "truthy (JNum (Finite q)) = (q \<noteq> 0)"
| "truthy (JNum NegInfinity) = True"
| "truthy (JNum PosInfinity) = True"
| "truthy (JStr s) = (s \<noteq> [])"
| "truthy (JArr xs) = True"
| "truthy (JObj kvs) = True"

fun typeof :: "jsval \<Rightarrow> string" where
  "typeof JUndefined = ''undefined''"
| "typeof JNull = ''object''"
| "typeof (JBool b) = ''boolean''"
| "typeof (JNum n) = ''number''"
| "typeof (JStr s) = ''string''"
| "typeof (JArr xs) = ''object''"
| "typeof (JObj kvs) = ''object''"

text \<open>\<open>Number.isInteger\<close>: true on a finite number with no fractional part, false on
  every other value; it converts nothing, so it is false on every string.\<close>

fun Number_isInteger :: "jsval \<Rightarrow> bool" where
  "Number_isInteger (JNum (Finite q)) = (q = of_int \<lfloor>q\<rfloor>)"
| "Number_isInteger v = False"

text \<open>The operator \<open><\<close> on two numbers; \<open>a > b\<close> is \<open>num_less b a\<close>.\<close>

fun num_less :: "jsnum \<Rightarrow> jsnum \<Rightarrow> bool" where
  "num_less NaN b = False"
| "num_less a NaN = False"
| "num_less (Finite a) (Finite b) = (a < b)"
| "num_less NegInfinity NegInfinity = False"
| "num_less NegInfinity b = True"
| "num_less a NegInfinity = False"
| "num_less PosInfinity b = False"
| "num_less a PosInfinity = True"

text \<open>Decimal digits of an index, for the keys of arrays and strings.\<close>

fun decimal :: "nat \<Rightarrow> string" where
  "decimal n =
     (if n < 10 then [''0123456789'' ! n]
      else decimal (n div 10) @ [''0123456789'' ! (n mod 10)])"

declare decimal.simps [simp del]

text \<open>\<open>Object.keys(v)\<close>: a TypeError on \<open>undefined\<close> and \<open>null\<close>, no key on a
  boolean or a number, the indices of a string or an array, the keys of an object.\<close>

datatype message =
    EmailInUse
  | EmailHasSpecialCharacters
  | EmailHasWhitespace
  | EmailBadStart
  | EmailBadDomain
  | PasswordLength
  | PasswordHasWhitespace
  | EmailNotRegistered
  | StationDataMissing
  | ItemEmpty
  | ItemNotObject
  | ItemKeysWrong
  | NameNotString
  | LatitudeNotNumber
  | LatitudeRange
  | LongitudeNotNumber
  | LongitudeRange
  | StationNameTaken string
  | IdMissing
  | IdNotNumber
  | NoSuchStation
  | NoSuchStationName
  | StationNotDeleted
  | NoSuchComment
  | CommentAccessDenied
  | CommentNotDeleted
  | NoSuchUser
  | UserNotDeleted

text \<open>What a handler can throw: the repository's \<open>HttpException(status, message)\<close> (the
  Korean message texts are named by the constructors of \<open>message\<close>), the engine's
  TypeError and ReferenceError, the storage layer's rejection of a second row with a
  unique value, and the failure of a call to an outside service.\<close>

datatype exn =
    HttpException nat message
  | TypeError
  | ReferenceError
  | UniqueConstraintError
  | ExternalError

fun Object_keys :: "jsval \<Rightarrow> exn + string list" where
  "Object_keys JUndefined = Inl TypeError"
| "Object_keys JNull = Inl TypeError"
| "Object_keys (JBool b) = Inr []"
| "Object_keys (JNum n) = Inr []"
| "Object_keys (JStr s) = Inr (map decimal [0..<length s])"
| "Object_keys (JArr xs) = Inr (map decimal [0..<length xs])"
| "Object_keys (JObj kvs) = Inr (map fst kvs)"

text \<open>The values \<open>data[n]\<close> that \<open>for (let n in data)\<close> visits, in order.\<close>

fun for_in_values :: "jsval \<Rightarrow> jsval list" where
  "for_in_values (JStr s) = map (\<lambda>c. JStr [c]) s"
| "for_in_values (JArr xs) = xs"
| "for_in_values (JObj kvs) = map snd kvs"
| "for_in_values v = []"

text \<open>Reading a property named \<open>name\<close>, \<open>latitude\<close> or \<open>longitude\<close>: an object gives
  the property's value or \<open>undefined\<close>; no array, string, number or boolean has a
  property of one of these names.\<close>

fun get_prop :: "jsval \<Rightarrow> string \<Rightarrow> jsval" where
  "get_prop (JObj kvs) k = (case map_of kvs k of Some v \<Rightarrow> v | None \<Rightarrow> JUndefined)"
| "get_prop v k = JUndefined"

subsection \<open>Strings\<close>

text \<open>\<open>s.split(d)\<close> for a one-character separator.\<close>

fun split_on :: "char \<Rightarrow> string \<Rightarrow> string list" where
  "split_on d [] = [[]]"
| "split_on d (c # cs) =
     (if c = d then [] # split_on d cs
      else (case split_on d cs of
              [] \<Rightarrow> [[c]]
            | p # ps \<Rightarrow> (c # p) # ps))"

text \<open>\<open>xs[i]\<close> on an array: \<open>undefined\<close> (here \<open>None\<close>) out of range.\<close>

fun index :: "'a list \<Rightarrow> nat \<Rightarrow> 'a option" where
  "index [] i = None"
| "index (x # xs) 0 = Some x"
| "index (x # xs) (Suc i) = index xs i"

text \<open>The members of the class \<open>\s\<close> among the code units below 256.\<close>

definition whitespace :: "char list" where
  "whitespace = [CHR 0x09, CHR 0x0A, CHR 0x0B, CHR 0x0C, CHR 0x0D, CHR 0x20, CHR 0xA0]"

definition digits :: "char list" where
  "digits = ''0123456789''"

definition letters :: "char list" where
  "letters = ''abcdefghijklmnopqrstuvwxyzABCDEFGHIJKLMNOPQRSTUVWXYZ''"


section \<open>The relational store\<close>

text \<open>
  The tables of the data model, a row per record, in insertion order. The timestamps
  \<open>createdAt\<close> and \<open>updatedAt\<close> are left out: no handler below reads them. The
  soft-delete marker \<open>deletedAt\<close> is kept as the flag it stands for (set or not set).
\<close>

datatype authority = USER | ADMIN

record user =
  u_id :: int
  u_email :: string
  u_password :: string
  u_authority :: authority
  u_deleted :: bool

record station =
  s_id :: int
  s_name :: string
  s_latitude :: jsnum
  s_longitude :: jsnum
  s_deleted :: bool

record locker =
  l_id :: int
  l_stationId :: int
  l_userId :: "int option"
  l_status :: string
  l_deleted :: bool

record post =
  p_id :: int
  p_userId :: int
  p_title :: jsval
  p_content :: jsval

record comment =
  c_id :: int
  c_postId :: int
  c_content :: string
  c_deleted :: bool

record store =
  users :: "user list"
  stations :: "station list"
  lockers :: "locker list"
  posts :: "post list"
  comments :: "comment list"

text \<open>The key a new row gets: one more than the largest key of the table.\<close>

definition next_id :: "int list \<Rightarrow> int" where
  "next_id ids = fold max ids 0 + 1"

subsection \<open>The model calls\<close>

text \<open>
  Modelled from the spec: the model declarations (\<open>../models\<close>) are not among the
  sources. The spec gives User, Station, Locker and Comment a soft-delete marker and Post
  none: ``a soft-deleted record is excluded from default queries but retrievable by id
  for restore'', DELETE ``sets the deletion marker (logical delete)'' and restore
  ``clears the marker''. A \<open>where\<close> clause is the predicate it selects rows by.
  \<open>findOne\<close>, \<open>findByPk\<close> and \<open>findAll\<close> below are the default-scope queries.
\<close>

definition User_findOne :: "(user \<Rightarrow> bool) \<Rightarrow> store \<Rightarrow> user option" where
  "User_findOne wh st = find (\<lambda>r. \<not> u_deleted r \<and> wh r) (users st)"

definition User_destroy :: "(user \<Rightarrow> bool) \<Rightarrow> store \<Rightarrow> store" where
  "User_destroy wh st =
     st\<lparr>users := map (\<lambda>r. if wh r then r\<lparr>u_deleted := True\<rparr> else r) (users st)\<rparr>"

definition User_restore :: "(user \<Rightarrow> bool) \<Rightarrow> store \<Rightarrow> store" where
  "User_restore wh st =
     st\<lparr>users := map (\<lambda>r. if wh r then r\<lparr>u_deleted := False\<rparr> else r) (users st)\<rparr>"

definition Station_findOne :: "(station \<Rightarrow> bool) \<Rightarrow> store \<Rightarrow> station option" where
  "Station_findOne wh st = find (\<lambda>r. \<not> s_deleted r \<and> wh r) (stations st)"

definition Station_destroy :: "(station \<Rightarrow> bool) \<Rightarrow> store \<Rightarrow> store" where
  "Station_destroy wh st =
     st\<lparr>stations := map (\<lambda>r. if wh r then r\<lparr>s_deleted := True\<rparr> else r) (stations st)\<rparr>"

definition Station_restore :: "(station \<Rightarrow> bool) \<Rightarrow> store \<Rightarrow> store" where
  "Station_restore wh st =
     st\<lparr>stations := map (\<lambda>r. if wh r then r\<lparr>s_deleted := False\<rparr> else r) (stations st)\<rparr>"

definition Locker_findAll :: "(locker \<Rightarrow> bool) \<Rightarrow> store \<Rightarrow> locker list" where
  "Locker_findAll wh st = filter (\<lambda>r. \<not> l_deleted r \<and> wh r) (lockers st)"

definition Locker_destroy :: "(locker \<Rightarrow> bool) \<Rightarrow> store \<Rightarrow> store" where
  "Locker_destroy wh st =
     st\<lparr>lockers := map (\<lambda>r. if wh r then r\<lparr>l_deleted := True\<rparr> else r) (lockers st)\<rparr>"

definition Locker_restore :: "(locker \<Rightarrow> bool) \<Rightarrow> store \<Rightarrow> store" where
  "Locker_restore wh st =
     st\<lparr>lockers := map (\<lambda>r. if wh r then r\<lparr>l_deleted := False\<rparr> else r) (lockers st)\<rparr>"

definition Post_findOne :: "(post \<Rightarrow> bool) \<Rightarrow> store \<Rightarrow> post option" where
  "Post_findOne wh st = find wh (posts st)"

definition Comment_findOne :: "(comment \<Rightarrow> bool) \<Rightarrow> store \<Rightarrow> comment option" where
  "Comment_findOne wh st = find (\<lambda>r. \<not> c_deleted r \<and> wh r) (comments st)"

definition Comment_destroy :: "(comment \<Rightarrow> bool) \<Rightarrow> store \<Rightarrow> store" where
  "Comment_destroy wh st =
     st\<lparr>comments := map (\<lambda>r. if wh r then r\<lparr>c_deleted := True\<rparr> else r) (comments st)\<rparr>"

definition Comment_restore :: "(comment \<Rightarrow> bool) \<Rightarrow> store \<Rightarrow> store" where
  "Comment_restore wh st =
     st\<lparr>comments := map (\<lambda>r. if wh r then r\<lparr>c_deleted := False\<rparr> else r) (comments st)\<rparr>"

text \<open>
  Modelled from the spec: \<open>create\<close> appends a row under a fresh key. The spec makes the
  email of a User and the name of a Station unique, ``additionally enforced at the storage
  layer'': a second row with the value, deleted or not, is refused there. A new User
  has authority \<open>user\<close>. The spec states no constraint on the fields of a Post.
\<close>

definition User_create :: "string \<Rightarrow> string \<Rightarrow> store \<Rightarrow> exn + store" where
  "User_create email password st =
     (if list_ex (\<lambda>r. u_email r = email) (users st) then Inl UniqueConstraintError
      else Inr (st\<lparr>users := users st @
             [\<lparr>u_id = next_id (map u_id (users st)), u_email = email,
               u_password = password, u_authority = USER, u_deleted = False\<rparr>]\<rparr>))"

definition Station_create :: "string \<Rightarrow> jsnum \<Rightarrow> jsnum \<Rightarrow> store \<Rightarrow> exn + station \<times> store" where
  "Station_create name latitude longitude st =
     (if list_ex (\<lambda>r. s_name r = name) (stations st) then Inl UniqueConstraintError
      else
        (let row = \<lparr>s_id = next_id (map s_id (stations st)), s_name = name,
                    s_latitude = latitude, s_longitude = longitude, s_deleted = False\<rparr>
         in Inr (row, st\<lparr>stations := stations st @ [row]\<rparr>)))"

definition Post_create :: "jsval \<Rightarrow> jsval \<Rightarrow> int \<Rightarrow> store \<Rightarrow> post \<times> store" where
  "Post_create title content userId st =
     (let row = \<lparr>p_id = next_id (map p_id (posts st)), p_userId = userId,
                 p_title = title, p_content = content\<rparr>
      in (row, st\<lparr>posts := posts st @ [row]\<rparr>))"

section \<open>Requests and responses\<close>

text \<open>
  A handler either sends a response (\<open>res.status(code).send(body)\<close>), or hands an
  exception to \<open>next\<close> (every handler body is one \<open>try\<close> block whose \<open>catch\<close> calls
  \<open>next(err)\<close>), or ends having done neither.
\<close>

datatype body =
    NoBody
  | UserBody "(int \<times> string) option"
  | UserLockersBody int string "locker list"
  | PostBody post
  | StationsBody "station list"
  | StationMetaBody station "locker list" jsval jsval
  | RestoredStationBody "station option" "locker list"
  | CommentBody "comment option"

datatype outcome =
    Responded nat body
  | Forwarded exn
  | NoResponse

text \<open>
  Modelled from the spec: the error responder behind \<open>next\<close> is not among the sources.
  The spec's one error kind is ``an HTTP exception carrying (status code, message)'',
  forwarded ``to a central error responder'': the status of a forwarded HttpException is
  the code it carries; no source fixes a status for any other exception.
\<close>

fun http_status :: "outcome \<Rightarrow> nat option" where
  "http_status (Responded code b) = Some code"
| "http_status (Forwarded (HttpException code m)) = Some code"
| "http_status (Forwarded e) = None"
| "http_status NoResponse = None"

text \<open>
  What the handlers call and the sources do not define:
  \<^item> \<open>bcrypt_hash\<close>: the hash \<open>bcrypt.hash(password, 10)\<close> returns;
  \<^item> \<open>sql_int\<close>: the key that the storage layer compares an integer column with when
    the \<open>where\<close> clause gives it the string of a route parameter (no key when no
    integer can equal it);
  \<^item> \<open>Number_of\<close>: the number \<open>Number(s)\<close> of a string (ECMAScript's StringToNumber,
    whose value rests on the rounding of the double format);
  \<^item> \<open>checkRequiredParameters\<close>: the field \<open>validation\<close> of the result of the
    helper \<open>../functions/checkRequiredParameters\<close>, which the module of the user
    routes requires (src/routes/user.js, line 7);
  \<^item> \<open>checkWeather\<close>: \<open>main.temp\<close> and \<open>main.humidity\<close> of the weather
    service's answer for a station, or the exception the call ends in.
\<close>

record env =
  bcrypt_hash :: "string \<Rightarrow> string"
  sql_int :: "string \<Rightarrow> int option"
  Number_of :: "string \<Rightarrow> jsnum"
  checkRequiredParameters :: "jsval list \<Rightarrow> bool"
  checkWeather :: "station \<Rightarrow> exn + jsval \<times> jsval"

text \<open>The user that \<open>authenticateToken\<close> attaches to the request.\<close>

record req_user =
  ru_id :: int
  ru_authority :: authority

section \<open>POST /auth/sign-up\<close>

text \<open>The character class of the regular expression \<open>specialCharacters\<close>.\<close>

definition specialCharacters :: "char list" where
  "specialCharacters =
     [CHR ''{'', CHR ''}'', CHR ''['', CHR '']'', CHR ''/'', CHR ''?'', CHR '','',
      CHR '';'', CHR '':'', CHR ''|'', CHR '')'', CHR ''*'', CHR ''~'', CHR 0x60,
      CHR ''!'', CHR ''^'', CHR ''-'', CHR ''+'', CHR ''<'', CHR ''>'', CHR ''#'',
      CHR ''$'', CHR ''%'', CHR ''&'', CHR 0x5C, CHR ''='', CHR ''('', CHR 0x27,
      CHR 0x22]"

text \<open>\<open>s.match(re)\<close> is truthy for a one-character class \<open>re\<close> when some character of
  \<open>s\<close> is in the class.\<close>

definition match_class :: "char list \<Rightarrow> string \<Rightarrow> bool" where
  "match_class cls s = list_ex (\<lambda>c. c \<in> set cls) s"

text \<open>\<open>/^[0-9,a-zA-Z]/\<close>: the first character is a digit, a comma or a letter.\<close>

definition startEnglishNumber :: "string \<Rightarrow> bool" where
  "startEnglishNumber s =
     (case s of [] \<Rightarrow> False | c # cs \<Rightarrow> c \<in> set (digits @ '','' @ letters))"

text \<open>
  \<open>/^([0-9a-zA-Z_-]+)(\.[0-9a-zA-Z_-]+){1,5}$/\<close>: the dot is not in the class of the
  labels, so the whole string matches exactly when cutting it at its dots gives two to
  six pieces, each non-empty and made of characters of the class.
\<close>

definition emailAfterAtPattern :: "string \<Rightarrow> bool" where
  "emailAfterAtPattern s =
     (let parts = split_on CHR ''.'' s
      in 2 \<le> length parts \<and> length parts \<le> 6 \<and>
         list_all (\<lambda>p. p \<noteq> [] \<and> list_all (\<lambda>c. c \<in> set (digits @ letters @ ''_-'')) p) parts)"

definition passwordLengthMin :: nat where
  "passwordLengthMin = 8"

definition passwordLengthMax :: nat where
  "passwordLengthMax = 15"

text \<open>
  The handler, for a body whose \<open>email\<close> and \<open>password\<close> are strings, as the route
  documents them. \<open>email.split('@')[1]\<close> is \<open>undefined\<close> (\<open>None\<close>) when the email has
  no \<open>@\<close>, and \<open>emailAfterAt.match\<close> then raises a TypeError. Every \<open>throw\<close> comes
  before the one write, so the transaction has nothing to undo.
\<close>

text \<open>Source: \<^verbatim>\<open>src/unnamed/part_000, lines 77-147, router.post('/sign-up')\<close>.\<close>

definition sign_up :: "env \<Rightarrow> string \<Rightarrow> string \<Rightarrow> store \<Rightarrow> outcome \<times> store" where
  "sign_up env email password st =
     (let emailAfterAt = index (split_on CHR ''@'' email) 1;
          emailDuplicationCheck = User_findOne (\<lambda>r. u_email r = email) st
      in if emailDuplicationCheck \<noteq> None then (Forwarded (HttpException 400 EmailInUse), st)
         else if match_class specialCharacters email
           then (Forwarded (HttpException 400 EmailHasSpecialCharacters), st)
         else if match_class whitespace email
           then (Forwarded (HttpException 400 EmailHasWhitespace), st)
         else if \<not> startEnglishNumber email
           then (Forwarded (HttpException 400 EmailBadStart), st)
         else (case emailAfterAt of
                 None \<Rightarrow> (Forwarded TypeError, st)
               | Some afterAt \<Rightarrow>
                   if \<not> emailAfterAtPattern afterAt
                     then (Forwarded (HttpException 400 EmailBadDomain), st)
                   else if length password < passwordLengthMin \<or> length password > passwordLengthMax
                     then (Forwarded (HttpException 400 PasswordLength), st)
                   else if match_class whitespace password
                     then (Forwarded (HttpException 400 PasswordHasWhitespace), st)
                   else (case User_create email (bcrypt_hash env password) st of
                           Inl e \<Rightarrow> (Forwarded e, st)
                         | Inr st' \<Rightarrow>
                             (Responded 201
                                (UserBody (map_option (\<lambda>r. (u_id r, u_email r))
                                   (User_findOne (\<lambda>r. u_email r = email) st'))), st'))))"

section \<open>POST /posts\<close>

text \<open>The body's \<open>email\<close> is a string; \<open>title\<close> and \<open>content\<close> are whatever the
  body holds, \<open>undefined\<close> when absent.\<close>

text \<open>Source: \<^verbatim>\<open>src/routes/posts.js, lines 44-67, router.post('/')\<close>.\<close>

definition posts_post :: "string \<Rightarrow> jsval \<Rightarrow> jsval \<Rightarrow> store \<Rightarrow> outcome \<times> store" where
  "posts_post email title content st =
     (case User_findOne (\<lambda>r. u_email r = email) st of
        None \<Rightarrow> (Forwarded (HttpException 400 EmailNotRegistered), st)
      | Some user \<Rightarrow>
          (let userId = u_id user;
               (newPost, st') = Post_create title content userId st
           in (Responded 201 (PostBody newPost), st')))"

section \<open>The station routes\<close>

subsection \<open>POST /stations\<close>

definition requiredKeys :: "string list" where
  "requiredKeys = [''name'', ''latitude'', ''longitude'']"

text \<open>
  One turn of the loop over \<open>data\<close>. The tests \<open>typeof x != 'string'\<close> and
  \<open>typeof x != 'number'\<close> are the \<open>case\<close> distinctions on the value; the range tests
  are \<open>!(-90 < latitude && 90 > latitude)\<close> and \<open>!(-180 < longitude && 180 > longitude)\<close>.
\<close>

text \<open>Source: \<^verbatim>\<open>src/routes/user.js, lines 498-550, the body of the loop of router.post('/')\<close>.\<close>

definition station_item :: "jsval \<Rightarrow> store \<Rightarrow> exn + station \<times> store" where
  "station_item item st =
     (case Object_keys item of
        Inl e \<Rightarrow> Inl e
      | Inr itemKeys \<Rightarrow>
          if length itemKeys = 0 then Inl (HttpException 400 ItemEmpty)
          else if typeof item \<noteq> ''object'' \<or> item = JNull
            then Inl (HttpException 400 ItemNotObject)
          else if \<not> list_all (\<lambda>key. key \<in> set itemKeys) requiredKeys
                  \<or> length itemKeys \<noteq> length requiredKeys
            then Inl (HttpException 400 ItemKeysWrong)
          else
            (case get_prop item ''name'' of
               JStr name \<Rightarrow>
                 (case get_prop item ''latitude'' of
                    JNum latitude \<Rightarrow>
                      if \<not> (num_less (Finite (- 90)) latitude \<and> num_less latitude (Finite 90))
                        then Inl (HttpException 400 LatitudeRange)
                      else
                        (case get_prop item ''longitude'' of
                           JNum longitude \<Rightarrow>
                             if \<not> (num_less (Finite (- 180)) longitude
                                    \<and> num_less longitude (Finite 180))
                               then Inl (HttpException 400 LongitudeRange)
                             else
                               (case Station_findOne (\<lambda>r. s_name r = name) st of
                                  Some stationDuplication \<Rightarrow>
                                    Inl (HttpException 400 (StationNameTaken name))
                                | None \<Rightarrow> Station_create name latitude longitude st)
                         | _ \<Rightarrow> Inl (HttpException 400 LongitudeNotNumber))
                  | _ \<Rightarrow> Inl (HttpException 400 LatitudeNotNumber))
             | _ \<Rightarrow> Inl (HttpException 400 NameNotString)))"

text \<open>The loop: an exception leaves it with the rows of the earlier items stored (the
  handler opens no transaction).\<close>

fun stations_loop :: "jsval list \<Rightarrow> station list \<Rightarrow> store \<Rightarrow> (exn + station list) \<times> store" where
  "stations_loop [] newStations st = (Inr newStations, st)"
| "stations_loop (item # items) newStations st =
     (case station_item item st of
        Inl e \<Rightarrow> (Inl e, st)
      | Inr (station, st') \<Rightarrow> stations_loop items (newStations @ [station]) st')"

text \<open>Source: \<^verbatim>\<open>src/routes/user.js, lines 487-555, router.post('/')\<close>.\<close>

definition stations_post :: "jsval \<Rightarrow> store \<Rightarrow> outcome \<times> store" where
  "stations_post data st =
     (if \<not> truthy data then (Forwarded (HttpException 400 StationDataMissing), st)
      else
        (case stations_loop (for_in_values data) [] st of
           (Inl e, st') \<Rightarrow> (Forwarded e, st')
         | (Inr newStations, st') \<Rightarrow> (Responded 201 (StationsBody newStations), st')))"

subsection \<open>Routes with the parameter \<open>:id\<close>\<close>

text \<open>
  \<open>req.params.id\<close> is the string of the path segment. The messages that ask for an id
  are all \<open>IdMissing\<close> here, and those that ask for a number are all \<open>IdNotNumber\<close>.
\<close>

text \<open>Source: \<^verbatim>\<open>src/routes/user.js, lines 654-698, router.get('/:id')\<close>.\<close>

definition stations_get :: "env \<Rightarrow> string \<Rightarrow> store \<Rightarrow> outcome \<times> store" where
  "stations_get env id' st =
     (if \<not> truthy (JStr id') then (Forwarded (HttpException 400 IdMissing), st)
      else if \<not> Number_isInteger (JStr id')
        then (Forwarded (HttpException 400 IdNotNumber), st)
      else
        (case Station_findOne (\<lambda>r. sql_int env id' = Some (s_id r)) st of
           None \<Rightarrow> (Forwarded (HttpException 400 NoSuchStation), st)
         | Some station \<Rightarrow>
             (case checkWeather env station of
                Inl e \<Rightarrow> (Forwarded e, st)
              | Inr (temp, humidity) \<Rightarrow>
                  (Responded 200
                     (StationMetaBody station
                        (Locker_findAll (\<lambda>r. sql_int env id' = Some (l_stationId r)) st)
                        temp humidity), st))))"

text \<open>The two writes of DELETE /stations/:id, in the order of the source: the lockers
  of the station that was found, then the station.\<close>

definition stations_delete_writes :: "env \<Rightarrow> string \<Rightarrow> station \<Rightarrow> store \<Rightarrow> store" where
  "stations_delete_writes env id' station st =
     Station_destroy (\<lambda>r. sql_int env id' = Some (s_id r))
       (Locker_destroy (\<lambda>r. l_stationId r = s_id station) st)"

text \<open>Source: \<^verbatim>\<open>src/routes/user.js, lines 717-739, router.delete('/:id')\<close>.\<close>

definition stations_delete :: "env \<Rightarrow> string \<Rightarrow> store \<Rightarrow> outcome \<times> store" where
  "stations_delete env id' st =
     (if \<not> truthy (JStr id') then (Forwarded (HttpException 400 IdMissing), st)
      else
        (case Station_findOne (\<lambda>r. sql_int env id' = Some (s_id r)) st of
           None \<Rightarrow> (Forwarded (HttpException 400 NoSuchStationName), st)
         | Some station \<Rightarrow> (Responded 204 NoBody, stations_delete_writes env id' station st)))"

text \<open>The two writes of PATCH /stations/restore/:id, in the order of the source: the
  station, then the lockers whose \<open>stationId\<close> is the id.\<close>

definition stations_restore_writes :: "env \<Rightarrow> string \<Rightarrow> store \<Rightarrow> store" where
  "stations_restore_writes env id' st =
     Locker_restore (\<lambda>r. sql_int env id' = Some (l_stationId r))
       (Station_restore (\<lambda>r. sql_int env id' = Some (s_id r)) st)"

text \<open>
  src/routes/user.js holds three modules, each with its own \<open>require\<close> lines and its
  own \<open>module.exports\<close>. The module of the station routes (lines 423-840) requires
  \<open>checkWeather\<close> alone from \<open>../functions\<close> (line 429) and binds the name
  \<open>checkRequiredParameters\<close> nowhere: evaluating the name raises a ReferenceError.
\<close>

definition stations_checkRequiredParameters :: "(jsval list \<Rightarrow> bool) option" where
  "stations_checkRequiredParameters = None"

text \<open>The handler of PATCH /stations/restore/:id from its first statement on, had the
  name been bound to a helper \<open>check\<close>.\<close>

definition stations_restore_bound ::
    "(jsval list \<Rightarrow> bool) \<Rightarrow> env \<Rightarrow> string \<Rightarrow> store \<Rightarrow> outcome \<times> store" where
  "stations_restore_bound check env id' st =
     (if \<not> check [JStr id']
        then (Forwarded (HttpException 400 IdMissing), st)
      else if \<not> Number_isInteger (JStr id')
        then (Forwarded (HttpException 400 IdNotNumber), st)
      else
        (case Station_findOne (\<lambda>r. sql_int env id' = Some (s_id r)) st of
           Some station \<Rightarrow> (Forwarded (HttpException 400 StationNotDeleted), st)
         | None \<Rightarrow>
             (let st' = stations_restore_writes env id' st;
                  restoredStation = Station_findOne (\<lambda>r. sql_int env id' = Some (s_id r)) st';
                  restoredLockers = Locker_findAll (\<lambda>r. sql_int env id' = Some (l_stationId r)) st'
              in (Responded 200 (RestoredStationBody restoredStation restoredLockers), st'))))"

text \<open>Source: \<^verbatim>\<open>src/routes/user.js, lines 802-839, router.patch('/restore/:id')\<close>.
  The call \<open>checkRequiredParameters([id])\<close> of line 805 is the first thing the handler
  evaluates after reading the id; the \<open>catch\<close> hands the ReferenceError to \<open>next\<close>.\<close>

definition stations_restore :: "env \<Rightarrow> string \<Rightarrow> store \<Rightarrow> outcome \<times> store" where
  "stations_restore env id' st =
     (case stations_checkRequiredParameters of
        None \<Rightarrow> (Forwarded ReferenceError, st)
      | Some check \<Rightarrow> stations_restore_bound check env id' st)"

section \<open>The comment routes\<close>

text \<open>\<open>Comment.findByPk(id)\<close> is the default-scope \<open>findOne\<close> on the key.\<close>

text \<open>Source: \<^verbatim>\<open>src/routes/comments.js, lines 193-229, router.get('/:id')\<close>.\<close>

definition comments_get :: "env \<Rightarrow> req_user \<Rightarrow> string \<Rightarrow> store \<Rightarrow> outcome \<times> store" where
  "comments_get env ru id' st =
     (if \<not> truthy (JStr id') then (Forwarded (HttpException 400 IdMissing), st)
      else if \<not> Number_isInteger (JStr id')
        then (Forwarded (HttpException 400 IdNotNumber), st)
      else
        (case Comment_findOne (\<lambda>r. sql_int env id' = Some (c_id r)) st of
           None \<Rightarrow> (Forwarded (HttpException 400 NoSuchComment), st)
         | Some comment \<Rightarrow>
             if ru_authority ru = USER
                \<and> Post_findOne (\<lambda>p. p_id p = c_postId comment \<and> p_userId p = ru_id ru) st = None
               then (Forwarded (HttpException 401 CommentAccessDenied), st)
             else (Responded 200 (CommentBody (Some comment)), st)))"

text \<open>Source: \<^verbatim>\<open>src/routes/comments.js, lines 249-273, router.delete('/:id')\<close>.\<close>

definition comments_delete :: "env \<Rightarrow> string \<Rightarrow> store \<Rightarrow> outcome \<times> store" where
  "comments_delete env id' st =
     (if \<not> truthy (JStr id') then (Forwarded (HttpException 400 IdMissing), st)
      else if \<not> Number_isInteger (JStr id')
        then (Forwarded (HttpException 400 IdNotNumber), st)
      else
        (case Comment_findOne (\<lambda>r. sql_int env id' = Some (c_id r)) st of
           None \<Rightarrow> (Forwarded (HttpException 400 NoSuchComment), st)
         | Some comment \<Rightarrow>
             (Responded 204 NoBody,
              Comment_destroy (\<lambda>r. sql_int env id' = Some (c_id r)) st)))"

text \<open>PATCH /comments/restore/:id tests \<open>!Number(id)\<close> where the other routes test
  \<open>!Number.isInteger(id)\<close>.\<close>

text \<open>Source: \<^verbatim>\<open>src/routes/comments.js, lines 317-345, router.patch('/restore/:id')\<close>.\<close>

definition comments_restore :: "env \<Rightarrow> string \<Rightarrow> store \<Rightarrow> outcome \<times> store" where
  "comments_restore env id' st =
     (if \<not> truthy (JStr id') then (Forwarded (HttpException 400 IdMissing), st)
      else if \<not> truthy (JNum (Number_of env id'))
        then (Forwarded (HttpException 400 IdNotNumber), st)
      else
        (case Comment_findOne (\<lambda>r. sql_int env id' = Some (c_id r)) st of
           Some comment \<Rightarrow> (Forwarded (HttpException 400 CommentNotDeleted), st)
         | None \<Rightarrow>
             (let st' = Comment_restore (\<lambda>r. sql_int env id' = Some (c_id r)) st;
                  restoredComment = Comment_findOne (\<lambda>r. sql_int env id' = Some (c_id r)) st'
              in (Responded 200 (CommentBody restoredComment), st'))))"

section \<open>The user routes\<close>

text \<open>Source: \<^verbatim>\<open>src/routes/user.js, lines 105-142, router.get('/:id')\<close>.\<close>

definition users_get :: "env \<Rightarrow> string \<Rightarrow> store \<Rightarrow> outcome \<times> store" where
  "users_get env id' st =
     (if \<not> truthy (JStr id') then (Forwarded (HttpException 400 IdMissing), st)
      else if \<not> Number_isInteger (JStr id')
        then (Forwarded (HttpException 400 IdNotNumber), st)
      else
        (case User_findOne (\<lambda>r. sql_int env id' = Some (u_id r)) st of
           None \<Rightarrow> (Forwarded (HttpException 400 NoSuchUser), st)
         | Some user \<Rightarrow>
             (let userLocker =
                    Locker_findAll
                      (\<lambda>r. case l_userId r of None \<Rightarrow> False | Some k \<Rightarrow> sql_int env id' = Some k) st
              in (Responded 200 (UserLockersBody (u_id user) (u_email user) userLocker), st))))"

text \<open>Source: \<^verbatim>\<open>src/routes/user.js, lines 162-181, router.delete('/:id')\<close>.\<close>

definition users_delete :: "env \<Rightarrow> string \<Rightarrow> store \<Rightarrow> outcome \<times> store" where
  "users_delete env id' st =
     (if \<not> checkRequiredParameters env [JStr id']
        then (Forwarded (HttpException 400 IdMissing), st)
      else if \<not> Number_isInteger (JStr id')
        then (Forwarded (HttpException 400 IdNotNumber), st)
      else (Responded 204 NoBody, User_destroy (\<lambda>r. sql_int env id' = Some (u_id r)) st))"

text \<open>PATCH /users/:id restores a user. After the restore the handler reads the user and
  ends: it sends no response.\<close>

text \<open>Source: \<^verbatim>\<open>src/routes/user.js, lines 221-247, router.patch('/:id')\<close>.\<close>

definition users_restore :: "env \<Rightarrow> string \<Rightarrow> store \<Rightarrow> outcome \<times> store" where
  "users_restore env id' st =
     (if \<not> checkRequiredParameters env [JStr id']
        then (Forwarded (HttpException 400 IdMissing), st)
      else if \<not> Number_isInteger (JStr id')
        then (Forwarded (HttpException 400 IdNotNumber), st)
      else
        (case User_findOne (\<lambda>r. sql_int env id' = Some (u_id r)) st of
           Some user \<Rightarrow> (Forwarded (HttpException 400 UserNotDeleted), st)
         | None \<Rightarrow> (NoResponse, User_restore (\<lambda>r. sql_int env id' = Some (u_id r)) st)))"

section \<open>The station and locker invariant\<close>

text \<open>No locker is active while a station with its \<open>stationId\<close> is deleted.\<close>

definition locker_station_inv :: "store \<Rightarrow> bool" where
  "locker_station_inv st =
     list_all
       (\<lambda>l. l_deleted l \<or>
            list_all (\<lambda>s. s_id s \<noteq> l_stationId l \<or> \<not> s_deleted s) (stations st))
       (lockers st)"

text \<open>
  The steps that DELETE /stations/:id and PATCH /stations/restore/:id take on the store:
  a whole request, and a request cut between its two writes. The writes of the restore
  are steps of their own as well, for every id, also where the tests before them let no
  request through.
\<close>

datatype station_action =
    DeleteRequest string
  | DeleteCutAfterLockers string
  | RestoreRequest string
  | RestoreStationWrite string
  | RestoreWrites string

fun station_step :: "env \<Rightarrow> station_action \<Rightarrow> store \<Rightarrow> store" where
  "station_step env (DeleteRequest id') st = snd (stations_delete env id' st)"
| "station_step env (DeleteCutAfterLockers id') st =
     (if \<not> truthy (JStr id') then st
      else
        (case Station_findOne (\<lambda>r. sql_int env id' = Some (s_id r)) st of
           None \<Rightarrow> st
         | Some station \<Rightarrow> Locker_destroy (\<lambda>r. l_stationId r = s_id station) st))"
| "station_step env (RestoreRequest id') st = snd (stations_restore env id' st)"
| "station_step env (RestoreStationWrite id') st =
     Station_restore (\<lambda>r. sql_int env id' = Some (s_id r)) st"
| "station_step env (RestoreWrites id') st = stations_restore_writes env id' st"

text \<open>The store after a sequence of steps.\<close>

definition station_steps :: "env \<Rightarrow> station_action list \<Rightarrow> store \<Rightarrow> store" where
  "station_steps env steps st = fold (station_step env) steps st"

text \<open>A value lies strictly between two bounds: it is a finite number that does.\<close>

definition strictly_between :: "rat \<Rightarrow> rat \<Rightarrow> jsval \<Rightarrow> bool" where
  "strictly_between lo hi v =
     (case v of JNum (Finite q) \<Rightarrow> lo < q \<and> q < hi | _ \<Rightarrow> False)"

section \<open>Example data\<close>

text \<open>An environment for the examples: its storage layer reads a string of decimal
  digits as the integer it denotes and matches no key with any other string;
  \<open>Number\<close> of a string of one to fifteen decimal digits is the number it denotes
  (elsewhere \<open>NaN\<close> stands in: the examples use no other string).\<close>

definition example_sql_int :: "string \<Rightarrow> int option" where
  "example_sql_int s =
     (if s \<noteq> [] \<and> list_all (\<lambda>c. c \<in> set digits) s
      then Some (int (fold (\<lambda>c n. 10 * n + length (takeWhile (\<lambda>d. d \<noteq> c) digits)) s 0))
      else None)"

definition example_Number_of :: "string \<Rightarrow> jsnum" where
  "example_Number_of s =
     (case example_sql_int s of
        Some k \<Rightarrow> if length s \<le> 15 then Finite (of_int k) else NaN
      | None \<Rightarrow> NaN)"

definition example_env :: env where
  "example_env =
     \<lparr>bcrypt_hash = (\<lambda>p. ''$2b$10$'' @ p),
      sql_int = example_sql_int,
      Number_of = example_Number_of,
      checkRequiredParameters = list_all truthy,
      checkWeather = (\<lambda>s. Inr (JNum (Finite 20), JNum (Finite 55)))\<rparr>"

definition example_store :: store where
  "example_store =
     \<lparr>users =
        [\<lparr>u_id = 1, u_email = ''kim@example.com'', u_password = ''$2b$10$secret12'',
          u_authority = USER, u_deleted = False\<rparr>],
      stations =
        [\<lparr>s_id = 1, s_name = ''Seoul'', s_latitude = Finite (75 / 2),
          s_longitude = Finite 127, s_deleted = False\<rparr>,
         \<lparr>s_id = 2, s_name = ''Busan'', s_latitude = Finite 35,
          s_longitude = Finite 129, s_deleted = True\<rparr>],
      lockers =
        [\<lparr>l_id = 1, l_stationId = 1, l_userId = Some 1, l_status = ''occupied'',
          l_deleted = False\<rparr>,
         \<lparr>l_id = 2, l_stationId = 2, l_userId = None, l_status = ''unoccupied'',
          l_deleted = True\<rparr>],
      posts =
        [\<lparr>p_id = 1, p_userId = 1, p_title = JStr ''locker'', p_content = JStr ''stuck''\<rparr>],
      comments =
        [\<lparr>c_id = 1, c_postId = 1, c_content = ''on it'', c_deleted = False\<rparr>,
         \<lparr>c_id = 2, c_postId = 1, c_content = ''done'', c_deleted = True\<rparr>]\<rparr>"

section \<open>Properties of the sign-up\<close>

lemma split_on_no_sep: "d \<notin> set s \<Longrightarrow> split_on d s = [s]"
  by (induction s) auto

lemma split_on_nonempty: "split_on d s \<noteq> []"
  by (induction s) (auto split: list.splits)

lemma split_on_sep: "d \<in> set s \<Longrightarrow> \<exists>a b r. split_on d s = a # b # r"
proof (induction s)
  case Nil
  then show ?case by simp
next
  case (Cons c cs)
  show ?case
  proof (cases "c = d")
    case True
    obtain p ps where "split_on d cs = p # ps"
      using split_on_nonempty [of d cs] by (cases "split_on d cs") auto
    with True show ?thesis by simp
  next
    case False
    with Cons.prems have "d \<in> set cs" by simp
    from Cons.IH [OF this] obtain a b r where "split_on d cs = a # b # r" by blast
    with False show ?thesis by simp
  qed
qed

lemma emailAfterAt_None: "d \<notin> set s \<Longrightarrow> index (split_on d s) (Suc 0) = None"
  by (simp add: split_on_no_sep)

lemma emailAfterAt_Some: "d \<in> set s \<Longrightarrow> \<exists>a. index (split_on d s) (Suc 0) = Some a"
  using split_on_sep [of d s] by auto

lemmas sign_up_eval =
  sign_up_def Let_def User_findOne_def example_store_def match_class_def
  specialCharacters_def whitespace_def startEnglishNumber_def digits_def letters_def

text \<open>
  An email with an \<open>@\<close> has an \<open>emailAfterAt\<close>, and a password shorter than 8 or
  longer than 15 characters then ends in a 400, from the length test or from a test
  before it.
\<close>

lemma sign_up_password_length_with_at:
  assumes "length password < 8 \<or> length password > 15" and "CHR ''@'' \<in> set email"
  shows "\<exists>m. sign_up env email password st = (Forwarded (HttpException 400 m), st)"
proof -
  obtain a where "index (split_on CHR ''@'' email) (Suc 0) = Some a"
    using emailAfterAt_Some [OF assms(2)] by blast
  with assms(1) show ?thesis
    by (auto simp add: sign_up_def Let_def passwordLengthMin_def passwordLengthMax_def)
qed

text \<open>
  C5. A sign-up whose password is shorter than 8 or longer than 15 characters is to
  return 400. With the unregistered email \<open>abc\<close>, which has no \<open>@\<close>, and the
  five-character password \<open>short\<close>, the handler never reaches the length test:
  \<open>emailAfterAt\<close> is \<open>undefined\<close>, \<open>emailAfterAt.match\<close> raises a TypeError, and
  the TypeError is what \<open>next\<close> receives; no status 400 is set.
\<close>

theorem sign_up_short_password_TypeError:
  "length ''short'' < passwordLengthMin
   \<and> sign_up example_env ''abc'' ''short'' example_store = (Forwarded TypeError, example_store)
   \<and> http_status (fst (sign_up example_env ''abc'' ''short'' example_store)) = None"
  by (simp add: sign_up_eval passwordLengthMin_def)

text \<open>
  C6. A sign-up whose email is the email of a registered user (a user that
  \<open>User.findOne\<close> finds) returns 400 with the message of the duplicate email, whatever
  the email and the password look like, and stores nothing: the lookup is the first
  test of the handler.
\<close>

theorem sign_up_duplicate_email:
  assumes "User_findOne (\<lambda>r. u_email r = email) st = Some u"
  shows "sign_up env email password st = (Forwarded (HttpException 400 EmailInUse), st)"
  using assms by (simp add: sign_up_def Let_def)

theorem sign_up_duplicate_email_witness:
  "User_findOne (\<lambda>r. u_email r = ''kim@example.com'') example_store
     = Some \<lparr>u_id = 1, u_email = ''kim@example.com'', u_password = ''$2b$10$secret12'',
          u_authority = USER, u_deleted = False\<rparr>
   \<and> sign_up example_env ''kim@example.com'' ''x y'' example_store
     = (Forwarded (HttpException 400 EmailInUse), example_store)"
proof -
  have h: "User_findOne (\<lambda>r. u_email r = ''kim@example.com'') example_store
     = Some \<lparr>u_id = 1, u_email = ''kim@example.com'', u_password = ''$2b$10$secret12'',
          u_authority = USER, u_deleted = False\<rparr>"
    by (simp add: User_findOne_def example_store_def)
  from sign_up_duplicate_email [OF h] h show ?thesis by simp
qed

text \<open>
  C9, as amended. A sign-up whose email has no \<open>@\<close>, is not registered, has none of
  the blocked special characters and no whitespace, and starts with a digit, a comma or
  a letter, ends in the TypeError of \<open>emailAfterAt.match\<close> on \<open>undefined\<close>, handed to
  \<open>next\<close>, and stores nothing. (The three tests before it return 400 for every other
  unregistered email without \<open>@\<close>.)
\<close>

theorem sign_up_no_at_TypeError:
  assumes "CHR ''@'' \<notin> set email"
    and "User_findOne (\<lambda>r. u_email r = email) st = None"
    and "\<not> match_class specialCharacters email"
    and "\<not> match_class whitespace email"
    and "startEnglishNumber email"
  shows "sign_up env email password st = (Forwarded TypeError, st)"
  using assms by (simp add: sign_up_def Let_def emailAfterAt_None)

theorem sign_up_no_at_TypeError_witness:
  "CHR ''@'' \<notin> set ''kim.example.com''
   \<and> User_findOne (\<lambda>r. u_email r = ''kim.example.com'') example_store = None
   \<and> sign_up example_env ''kim.example.com'' ''password1'' example_store
     = (Forwarded TypeError, example_store)"
proof -
  have h1: "CHR ''@'' \<notin> set ''kim.example.com''" by simp
  have h2: "User_findOne (\<lambda>r. u_email r = ''kim.example.com'') example_store = None"
    by (simp add: User_findOne_def example_store_def)
  have h3: "\<not> match_class specialCharacters ''kim.example.com''"
    by (simp add: match_class_def specialCharacters_def)
  have h4: "\<not> match_class whitespace ''kim.example.com''"
    by (simp add: match_class_def whitespace_def)
  have h5: "startEnglishNumber ''kim.example.com''"
    by (simp add: startEnglishNumber_def digits_def letters_def)
  from sign_up_no_at_TypeError [OF h1 h2 h3 h4 h5] h1 h2 show ?thesis by simp
qed

text \<open>The claim C9 as it was stated fails: the unregistered email \<open>a!b\<close> has no \<open>@\<close>,
  and the sign-up returns the 400 of the special-character test.\<close>

theorem sign_up_no_at_counterexample:
  "CHR ''@'' \<notin> set ''a!b''
   \<and> User_findOne (\<lambda>r. u_email r = ''a!b'') example_store = None
   \<and> sign_up example_env ''a!b'' ''password1'' example_store
     = (Forwarded (HttpException 400 EmailHasSpecialCharacters), example_store)"
  by (simp add: sign_up_eval)

section \<open>Properties of POST /posts\<close>

text \<open>
  C10. When \<open>User.findOne\<close> finds a user with the email of the request, a Post is
  stored with the title and the content of the body as they came (\<open>undefined\<close> when
  absent, the empty string when empty) and with the user's id, and the response is 201
  with that Post; when it finds none, the outcome is the 400 of the unregistered email
  and nothing is stored. The handler tests nothing else.
\<close>

theorem posts_post_checks_email_only:
  "(User_findOne (\<lambda>r. u_email r = email) st = Some user \<longrightarrow>
      posts_post email title content st =
        (Responded 201
           (PostBody \<lparr>p_id = next_id (map p_id (posts st)), p_userId = u_id user,
                      p_title = title, p_content = content\<rparr>),
         st\<lparr>posts := posts st @
              [\<lparr>p_id = next_id (map p_id (posts st)), p_userId = u_id user,
                p_title = title, p_content = content\<rparr>]\<rparr>))
   \<and> (User_findOne (\<lambda>r. u_email r = email) st = None \<longrightarrow>
      posts_post email title content st
        = (Forwarded (HttpException 400 EmailNotRegistered), st))"
  by (simp add: posts_post_def Post_create_def Let_def)

theorem posts_post_checks_email_only_witness:
  "posts_post ''kim@example.com'' JUndefined (JStr []) example_store =
     (Responded 201
        (PostBody \<lparr>p_id = 2, p_userId = 1, p_title = JUndefined, p_content = JStr []\<rparr>),
      example_store\<lparr>posts := posts example_store @
         [\<lparr>p_id = 2, p_userId = 1, p_title = JUndefined, p_content = JStr []\<rparr>]\<rparr>)
   \<and> posts_post ''lee@example.com'' (JStr ''t'') (JStr ''c'') example_store
        = (Forwarded (HttpException 400 EmailNotRegistered), example_store)"
proof -
  have h1: "User_findOne (\<lambda>r. u_email r = ''kim@example.com'') example_store
     = Some \<lparr>u_id = 1, u_email = ''kim@example.com'', u_password = ''$2b$10$secret12'',
          u_authority = USER, u_deleted = False\<rparr>"
    by (simp add: User_findOne_def example_store_def)
  have h2: "User_findOne (\<lambda>r. u_email r = ''lee@example.com'') example_store = None"
    by (simp add: User_findOne_def example_store_def)
  have n: "next_id (map p_id (posts example_store)) = 2"
    by (simp add: next_id_def example_store_def)
  from posts_post_checks_email_only [of "''kim@example.com''" example_store _ JUndefined "JStr []"]
    posts_post_checks_email_only [of "''lee@example.com''" example_store _ "JStr ''t''" "JStr ''c''"]
    h1 h2 n
  show ?thesis by simp
qed

section \<open>Properties of POST /stations\<close>

lemma stations_loop_append:
  "stations_loop (pre @ items) acc st =
     (case stations_loop pre acc st of
        (Inl e, st') \<Rightarrow> (Inl e, st')
      | (Inr created, st') \<Rightarrow> stations_loop items created st')"
  by (induction pre arbitrary: acc st) (auto split: sum.splits prod.splits)

lemma for_in_values_truthy: "for_in_values data \<noteq> [] \<Longrightarrow> truthy data"
  by (cases data) auto

text \<open>The two comparisons of a range test hold exactly for the numbers strictly
  between the bounds.\<close>

lemma num_less_between:
  "(num_less (Finite lo) x \<and> num_less x (Finite hi)) = strictly_between lo hi (JNum x)"
  by (cases x) (auto simp add: strictly_between_def)

lemma station_item_range:
  assumes "\<not> strictly_between (- 90) 90 (get_prop (JObj kvs) ''latitude'')
           \<or> \<not> strictly_between (- 180) 180 (get_prop (JObj kvs) ''longitude'')"
  shows "\<exists>m. station_item (JObj kvs) st = Inl (HttpException 400 m)"
  using assms
  by (auto simp add: station_item_def num_less_between split: jsval.splits option.splits)

text \<open>
  Let an item of \<open>data\<close> be an object whose latitude is not strictly between -90
  and 90 or whose longitude is not strictly between -180 and 180 (the bounds themselves,
  the infinities, \<open>NaN\<close> and values that are no numbers included). In any store the
  turn of the loop for the item throws a 400 and stores nothing. The request returns 400
  and leaves the store as the items before this one left it, so without a station for
  the item, when those items raise nothing but 400s.
\<close>

lemma stations_post_range_rejected:
  assumes range: "\<not> strictly_between (- 90) 90 (get_prop (JObj kvs) ''latitude'')
           \<or> \<not> strictly_between (- 180) 180 (get_prop (JObj kvs) ''longitude'')"
    and item: "for_in_values data = pre @ JObj kvs # rest"
    and earlier: "\<And>e. fst (stations_loop pre [] st) = Inl e \<Longrightarrow> \<exists>m. e = HttpException 400 m"
  shows "(\<exists>m. station_item (JObj kvs) st' = Inl (HttpException 400 m))
         \<and> (\<exists>m. stations_post data st
                = (Forwarded (HttpException 400 m), snd (stations_loop pre [] st)))"
proof
  show "\<exists>m. station_item (JObj kvs) st' = Inl (HttpException 400 m)"
    using range by (rule station_item_range)
next
  have t: "truthy data"
    using item by (intro for_in_values_truthy) simp
  obtain r st1 where loop: "stations_loop pre [] st = (r, st1)"
    by (cases "stations_loop pre [] st")
  show "\<exists>m. stations_post data st
                = (Forwarded (HttpException 400 m), snd (stations_loop pre [] st))"
  proof (cases r)
    case (Inl e)
    with loop earlier [of e] obtain m where "e = HttpException 400 m" by auto
    with Inl loop t item show ?thesis
      by (simp add: stations_post_def stations_loop_append)
  next
    case (Inr created)
    obtain m where "station_item (JObj kvs) st1 = Inl (HttpException 400 m)"
      using station_item_range [OF range] by blast
    with Inr loop t item show ?thesis
      by (simp add: stations_post_def stations_loop_append)
  qed
qed

text \<open>A request of two items: the first is stored, the second has the latitude 90.\<close>

lemma stations_post_range_rejected_example:
  "\<not> strictly_between (- 90) 90 (JNum (Finite 90))
   \<and> stations_loop
        [JObj [(''name'', JStr ''Daegu''), (''latitude'', JNum (Finite 35)),
               (''longitude'', JNum (Finite 128))]] [] example_store
     = (Inr [\<lparr>s_id = 3, s_name = ''Daegu'', s_latitude = Finite 35,
              s_longitude = Finite 128, s_deleted = False\<rparr>],
        example_store\<lparr>stations := stations example_store @
          [\<lparr>s_id = 3, s_name = ''Daegu'', s_latitude = Finite 35, s_longitude = Finite 128,
            s_deleted = False\<rparr>]\<rparr>)
   \<and> (\<exists>m. stations_post
        (JArr [JObj [(''name'', JStr ''Daegu''), (''latitude'', JNum (Finite 35)),
                     (''longitude'', JNum (Finite 128))],
               JObj [(''name'', JStr ''Pole''), (''latitude'', JNum (Finite 90)),
                     (''longitude'', JNum (Finite 0))]])
        example_store
      = (Forwarded (HttpException 400 m),
         example_store\<lparr>stations := stations example_store @
           [\<lparr>s_id = 3, s_name = ''Daegu'', s_latitude = Finite 35, s_longitude = Finite 128,
             s_deleted = False\<rparr>]\<rparr>))"
proof -
  let ?good = "JObj [(''name'', JStr ''Daegu''), (''latitude'', JNum (Finite 35)),
                  (''longitude'', JNum (Finite 128))]"
  let ?kvs = "[(''name'', JStr ''Pole''), (''latitude'', JNum (Finite 90)),
                  (''longitude'', JNum (Finite 0))]"
  have stored: "station_item ?good example_store =
      Inr (\<lparr>s_id = 3, s_name = ''Daegu'', s_latitude = Finite 35, s_longitude = Finite 128,
          s_deleted = False\<rparr>, example_store\<lparr>stations := stations example_store @
        [\<lparr>s_id = 3, s_name = ''Daegu'', s_latitude = Finite 35, s_longitude = Finite 128,
          s_deleted = False\<rparr>]\<rparr>)"
    by (simp add: station_item_def requiredKeys_def Station_findOne_def Station_create_def
        next_id_def example_store_def Let_def)
  have h0: "\<not> strictly_between (- 90) 90 (JNum (Finite 90))"
    by (simp add: strictly_between_def)
  have h1: "\<not> strictly_between (- 90) 90 (get_prop (JObj ?kvs) ''latitude'')
           \<or> \<not> strictly_between (- 180) 180 (get_prop (JObj ?kvs) ''longitude'')"
    by (simp add: strictly_between_def)
  have h2: "for_in_values (JArr [?good, JObj ?kvs]) = [?good] @ JObj ?kvs # []"
    by simp
  from stations_post_range_rejected [where st = example_store, OF h1 h2] h0
  show ?thesis
    by (simp add: stored)
qed

text \<open>
  C7. A request with an item whose latitude is not strictly between -90 and 90 is to
  return 400. In the request whose \<open>data\<close> is \<open>null\<close> followed by an item of
  latitude 95, the loop starts with \<open>Object.keys(null)\<close> (line 500), which raises a
  TypeError before the test for \<open>null\<close> of line 504 and before the second item is
  looked at: \<open>next\<close> receives the TypeError, and no status 400 is set.
\<close>

theorem stations_post_null_item_TypeError:
  "\<not> strictly_between (- 90) 90 (JNum (Finite 95))
   \<and> stations_post
        (JArr [JNull,
               JObj [(''name'', JStr ''Pole''), (''latitude'', JNum (Finite 95)),
                     (''longitude'', JNum (Finite 0))]])
        example_store
      = (Forwarded TypeError, example_store)
   \<and> http_status (fst (stations_post
        (JArr [JNull,
               JObj [(''name'', JStr ''Pole''), (''latitude'', JNum (Finite 95)),
                     (''longitude'', JNum (Finite 0))]])
        example_store)) = None"
  by (simp add: stations_post_def station_item_def strictly_between_def)

section \<open>Properties of the routes with the parameter \<open>:id\<close>\<close>

text \<open>
  \<open>Number.isInteger\<close> is false on every string, and the id of a route is a string:
  for every id, store and environment, each handler that reaches its test of the id with
  \<open>Number.isInteger\<close> hands a 400 to \<open>next\<close> (for the missing id or for the id that
  is no number) and leaves the store as it was. These are GET /comments/:id, DELETE
  /comments/:id, GET /stations/:id, and GET, DELETE and PATCH /users/:id.
\<close>

lemma isInteger_rejects_route_parameter:
  "\<not> Number_isInteger (JStr id')
   \<and> comments_get env ru id' st
       = (Forwarded (HttpException 400 (if id' = [] then IdMissing else IdNotNumber)), st)
   \<and> comments_delete env id' st
       = (Forwarded (HttpException 400 (if id' = [] then IdMissing else IdNotNumber)), st)
   \<and> stations_get env id' st
       = (Forwarded (HttpException 400 (if id' = [] then IdMissing else IdNotNumber)), st)
   \<and> users_get env id' st
       = (Forwarded (HttpException 400 (if id' = [] then IdMissing else IdNotNumber)), st)
   \<and> users_delete env id' st
       = (Forwarded (HttpException 400
            (if checkRequiredParameters env [JStr id'] then IdNotNumber else IdMissing)), st)
   \<and> users_restore env id' st
       = (Forwarded (HttpException 400
            (if checkRequiredParameters env [JStr id'] then IdNotNumber else IdMissing)), st)"
  by (simp add: comments_get_def comments_delete_def stations_get_def
      users_get_def users_delete_def users_restore_def)

text \<open>Had the module of the station routes bound the helper, the restore of a station
  would have ended in the same 400 for every id.\<close>

lemma stations_restore_bound_rejects:
  "stations_restore_bound check env id' st
     = (Forwarded (HttpException 400 (if check [JStr id'] then IdNotNumber else IdMissing)), st)"
  by (simp add: stations_restore_bound_def)

text \<open>For every id the restore of a station hands the ReferenceError to \<open>next\<close> and
  leaves the store as it was: it sends no response.\<close>

lemma stations_restore_ReferenceError:
  "stations_restore env id' st = (Forwarded ReferenceError, st)"
  by (simp add: stations_restore_def stations_checkRequiredParameters_def)

text \<open>
  C8. Each handler that tests the id of its route with \<open>Number.isInteger\<close> is to
  reject every request with 400, PATCH /stations/restore/:id among them. PATCH
  /stations/restore/3 never reaches the test of line 810: the call of the unbound
  \<open>checkRequiredParameters\<close> at line 805 raises a ReferenceError, and that is what
  \<open>next\<close> receives; no status 400 is set.
\<close>

theorem stations_restore_not_400:
  "\<not> Number_isInteger (JStr ''3'')
   \<and> fst (stations_restore example_env ''3'' example_store) = Forwarded ReferenceError
   \<and> http_status (fst (stations_restore example_env ''3'' example_store)) = None"
  by (simp add: stations_restore_def stations_checkRequiredParameters_def)

section \<open>Properties of the restore routes\<close>

lemma example_sql_int_1: "example_sql_int ''1'' = Some 1"
  by (simp add: example_sql_int_def digits_def)

lemma example_sql_int_2: "example_sql_int ''2'' = Some 2"
  by (simp add: example_sql_int_def digits_def)

lemma example_Number_of_2: "example_Number_of ''2'' = Finite 2"
  by (simp add: example_Number_of_def example_sql_int_2)

text \<open>
  When the default-scope query finds the record of the id (the record is active), the
  restore of a Comment and of a User each hand a 400 to \<open>next\<close> and leave the whole
  store as it was.
\<close>

lemma restore_of_active_record_rejected:
  "(Comment_findOne (\<lambda>r. sql_int env id' = Some (c_id r)) st = Some c \<longrightarrow>
      (\<exists>m. comments_restore env id' st = (Forwarded (HttpException 400 m), st)))
   \<and> (User_findOne (\<lambda>r. sql_int env id' = Some (u_id r)) st = Some u \<longrightarrow>
      (\<exists>m. users_restore env id' st = (Forwarded (HttpException 400 m), st)))"
  by (simp add: comments_restore_def users_restore_def)

text \<open>
  C3. The restore of an active Comment, User or Station is to return 400 and to change
  nothing. Station 1 of the example store is active. PATCH /stations/restore/1 changes
  nothing, and hands to \<open>next\<close> the ReferenceError of the unbound
  \<open>checkRequiredParameters\<close> (line 805), where the restores of a Comment and of a User
  hand it a 400; no status 400 is set.
\<close>

theorem stations_restore_active_ReferenceError:
  "Station_findOne (\<lambda>r. sql_int example_env ''1'' = Some (s_id r)) example_store
      = Some \<lparr>s_id = 1, s_name = ''Seoul'', s_latitude = Finite (75 / 2),
          s_longitude = Finite 127, s_deleted = False\<rparr>
   \<and> stations_restore example_env ''1'' example_store
      = (Forwarded ReferenceError, example_store)
   \<and> http_status (fst (stations_restore example_env ''1'' example_store)) = None"
  by (simp add: stations_restore_def stations_checkRequiredParameters_def
      Station_findOne_def example_store_def example_env_def example_sql_int_1)

text \<open>Whenever one of the two restore handlers sends a response, its status is 200.\<close>

lemma restore_responds_200:
  "(comments_restore env id' st = (Responded code b, st') \<longrightarrow> code = 200)
   \<and> (stations_restore env id' st = (Responded code b, st') \<longrightarrow> code = 200)"
  by (auto simp add: comments_restore_def stations_restore_def
      stations_checkRequiredParameters_def Let_def split: if_splits option.splits)

text \<open>
  C4. A restore that succeeds is to answer 201. PATCH /comments/restore/2 on the
  example store, where comment 2 is deleted, restores the comment and answers 200.
\<close>

theorem comments_restore_status_200:
  "Comment_findOne (\<lambda>r. sql_int example_env ''2'' = Some (c_id r)) example_store = None
   \<and> comments_restore example_env ''2'' example_store =
       (Responded 200
          (CommentBody (Some \<lparr>c_id = 2, c_postId = 1, c_content = ''done'', c_deleted = False\<rparr>)),
        example_store\<lparr>comments :=
          [\<lparr>c_id = 1, c_postId = 1, c_content = ''on it'', c_deleted = False\<rparr>,
           \<lparr>c_id = 2, c_postId = 1, c_content = ''done'', c_deleted = False\<rparr>]\<rparr>)
   \<and> http_status (fst (comments_restore example_env ''2'' example_store)) = Some 200"
  by (simp add: comments_restore_def Comment_findOne_def Comment_restore_def Let_def
      example_store_def example_env_def example_sql_int_2 example_Number_of_2)

section \<open>Properties of the station delete and restore\<close>

lemma Station_findOne_Some:
  assumes "Station_findOne wh st = Some station"
  shows "station \<in> set (stations st) \<and> \<not> s_deleted station \<and> wh station"
  using assms by (auto simp add: Station_findOne_def find_Some_iff)

text \<open>DELETE /stations/:id on an id whose station the default scope holds answers 204,
  and marks that station and every locker with its \<open>stationId\<close> deleted.\<close>

lemma stations_delete_cascade:
  assumes "id' \<noteq> []"
    and "Station_findOne (\<lambda>r. sql_int env id' = Some (s_id r)) st = Some station"
  shows "stations_delete env id' st =
    (Responded 204 NoBody,
     st\<lparr>lockers := map (\<lambda>r. if l_stationId r = s_id station then r\<lparr>l_deleted := True\<rparr> else r)
                      (lockers st),
        stations := map (\<lambda>r. if s_id r = s_id station then r\<lparr>s_deleted := True\<rparr> else r)
                      (stations st)\<rparr>)"
proof -
  have k: "sql_int env id' = Some (s_id station)"
    using assms(2) Station_findOne_Some by fastforce
  with assms show ?thesis
    by (simp add: stations_delete_def stations_delete_writes_def Station_destroy_def
        Locker_destroy_def eq_commute [of "s_id station"])
qed

text \<open>The two writes of the restore, had a request reached them, clear the marker of
  the station of the id and of every locker with that \<open>stationId\<close>.\<close>

lemma stations_restore_writes_cascade:
  assumes "sql_int env id' = Some k"
  shows "stations_restore_writes env id' st =
     st\<lparr>stations := map (\<lambda>r. if s_id r = k then r\<lparr>s_deleted := False\<rparr> else r) (stations st),
        lockers := map (\<lambda>r. if l_stationId r = k then r\<lparr>l_deleted := False\<rparr> else r)
                      (lockers st)\<rparr>"
  using assms
  by (simp add: stations_restore_writes_def Station_restore_def Locker_restore_def
      eq_commute [of k])

text \<open>
  C2. Deleting a station is to delete its lockers, and restoring a deleted station is
  to restore it and them. Station 2 of the example store is deleted. PATCH
  /stations/restore/2 hands the ReferenceError of the unbound \<open>checkRequiredParameters\<close>
  (line 805) to \<open>next\<close> and reaches neither \<open>Station.restore\<close> nor
  \<open>Locker.restore\<close>: the station and its locker stay deleted, the store is the one
  before the request.
\<close>

theorem stations_restore_restores_nothing:
  "map s_deleted (stations example_store) = [False, True]
   \<and> Station_findOne (\<lambda>r. sql_int example_env ''2'' = Some (s_id r)) example_store = None
   \<and> stations_restore example_env ''2'' example_store
       = (Forwarded ReferenceError, example_store)"
  by (simp add: stations_restore_def stations_checkRequiredParameters_def
      Station_findOne_def example_store_def example_env_def example_sql_int_2)

lemma locker_station_inv_iff:
  "locker_station_inv st \<longleftrightarrow>
     (\<forall>l \<in> set (lockers st). \<forall>s \<in> set (stations st).
        \<not> l_deleted l \<longrightarrow> s_id s = l_stationId l \<longrightarrow> \<not> s_deleted s)"
  by (auto simp add: locker_station_inv_def list_all_iff)

lemma inv_Locker_destroy:
  "locker_station_inv st \<Longrightarrow> locker_station_inv (Locker_destroy wh st)"
  by (auto simp add: locker_station_inv_iff Locker_destroy_def)

lemma inv_Station_restore:
  "locker_station_inv st \<Longrightarrow> locker_station_inv (Station_restore wh st)"
  by (auto simp add: locker_station_inv_iff Station_restore_def)

lemma inv_stations_delete_writes:
  assumes "locker_station_inv st" and "sql_int env id' = Some (s_id station)"
  shows "locker_station_inv (stations_delete_writes env id' station st)"
  using assms
  by (auto simp add: locker_station_inv_iff stations_delete_writes_def
      Locker_destroy_def Station_destroy_def)

lemma inv_stations_restore_writes:
  assumes "locker_station_inv st"
  shows "locker_station_inv (stations_restore_writes env id' st)"
  using assms
  by (auto simp add: locker_station_inv_iff stations_restore_writes_def
      Locker_restore_def Station_restore_def)

lemma inv_stations_delete:
  assumes "locker_station_inv st"
  shows "locker_station_inv (snd (stations_delete env id' st))"
proof (cases "Station_findOne (\<lambda>r. sql_int env id' = Some (s_id r)) st")
  case None
  with assms show ?thesis by (simp add: stations_delete_def)
next
  case (Some station)
  then have "sql_int env id' = Some (s_id station)"
    using Station_findOne_Some by fastforce
  with assms have "locker_station_inv (stations_delete_writes env id' station st)"
    by (rule inv_stations_delete_writes)
  with assms Some show ?thesis by (simp add: stations_delete_def)
qed

lemma inv_stations_restore:
  assumes "locker_station_inv st"
  shows "locker_station_inv (snd (stations_restore env id' st))"
  using assms
  by (simp add: stations_restore_def stations_checkRequiredParameters_def)

lemma inv_station_step:
  assumes "locker_station_inv st"
  shows "locker_station_inv (station_step env step st)"
proof (cases step)
  case (DeleteRequest id')
  with assms show ?thesis by (simp add: inv_stations_delete)
next
  case (DeleteCutAfterLockers id')
  with assms show ?thesis by (simp add: inv_Locker_destroy split: option.splits)
next
  case (RestoreRequest id')
  with assms show ?thesis by (simp add: inv_stations_restore)
next
  case (RestoreStationWrite id')
  with assms show ?thesis by (simp add: inv_Station_restore)
next
  case (RestoreWrites id')
  with assms show ?thesis by (simp add: inv_stations_restore_writes)
qed

text \<open>
  C1. From a store in which no locker is active while its station is deleted, every
  store that station deletes and station restores lead to is such a store again: the
  store after a request, and the store between the two writes of a request, where the
  delete has marked the lockers and not yet the station, and the restore has cleared the
  station and not yet the lockers.
\<close>

theorem station_steps_locker_station_inv:
  assumes "locker_station_inv st0"
  shows "locker_station_inv (station_steps env steps st0)"
  using assms unfolding station_steps_def
proof (induction steps arbitrary: st0)
  case Nil
  then show ?case by simp
next
  case (Cons step steps)
  from Cons.prems have "locker_station_inv (station_step env step st0)"
    by (rule inv_station_step)
  then show ?case by (simp add: Cons.IH)
qed

text \<open>On the example store: DELETE /stations/1 cut after its first write, then the
  whole DELETE /stations/1, then PATCH /stations/restore/1. Station 1 and its locker end
  deleted.\<close>

theorem station_steps_locker_station_inv_witness:
  "locker_station_inv example_store
   \<and> station_steps example_env
        [DeleteCutAfterLockers ''1'', DeleteRequest ''1'', RestoreRequest ''1''] example_store
       = example_store
          \<lparr>stations :=
             [\<lparr>s_id = 1, s_name = ''Seoul'', s_latitude = Finite (75 / 2),
               s_longitude = Finite 127, s_deleted = True\<rparr>,
              \<lparr>s_id = 2, s_name = ''Busan'', s_latitude = Finite 35,
               s_longitude = Finite 129, s_deleted = True\<rparr>],
           lockers :=
             [\<lparr>l_id = 1, l_stationId = 1, l_userId = Some 1, l_status = ''occupied'',
               l_deleted = True\<rparr>,
              \<lparr>l_id = 2, l_stationId = 2, l_userId = None, l_status = ''unoccupied'',
               l_deleted = True\<rparr>]\<rparr>
   \<and> locker_station_inv
        (station_steps example_env
           [DeleteCutAfterLockers ''1'', DeleteRequest ''1'', RestoreRequest ''1'']
           example_store)"
proof -
  have i: "locker_station_inv example_store"
    by (simp add: locker_station_inv_def example_store_def)
  have d: "station_steps example_env
        [DeleteCutAfterLockers ''1'', DeleteRequest ''1'', RestoreRequest ''1''] example_store
       = example_store
          \<lparr>stations :=
             [\<lparr>s_id = 1, s_name = ''Seoul'', s_latitude = Finite (75 / 2),
               s_longitude = Finite 127, s_deleted = True\<rparr>,
              \<lparr>s_id = 2, s_name = ''Busan'', s_latitude = Finite 35,
               s_longitude = Finite 129, s_deleted = True\<rparr>],
           lockers :=
             [\<lparr>l_id = 1, l_stationId = 1, l_userId = Some 1, l_status = ''occupied'',
               l_deleted = True\<rparr>,
              \<lparr>l_id = 2, l_stationId = 2, l_userId = None, l_status = ''unoccupied'',
               l_deleted = True\<rparr>]\<rparr>"
    by (simp add: station_steps_def stations_delete_def stations_delete_writes_def
        stations_restore_def stations_checkRequiredParameters_def Station_findOne_def
        Station_destroy_def Locker_destroy_def example_store_def example_env_def
        example_sql_int_1)
  from station_steps_locker_station_inv
         [OF i, of example_env
            "[DeleteCutAfterLockers ''1'', DeleteRequest ''1'', RestoreRequest ''1'']"]
    i d show ?thesis by simp
qed

end
